theory Spec2Isabelle
  imports Complex_Main
begin

section \<open>Conventions\<close>

text \<open>
  The JavaScript sources compute with IEEE doubles; they are modelled as exact reals.
  A division whose divisor can be zero is written out where a result depends on it.
  Texts are ASCII strings. A JavaScript object used as a dictionary is an association
  list in key-insertion order, which is the order of \<^verbatim>\<open>Object.keys\<close> for the
  non-numeric keys this program uses. The operator \<^verbatim>\<open>a || b\<close> on numbers takes
  \<open>b\<close> when \<open>a\<close> is absent or zero.
\<close>

definition orElse :: "real option \<Rightarrow> real \<Rightarrow> real" where
  "orElse a b = (case a of None \<Rightarrow> b | Some v \<Rightarrow> if v = 0 then b else v)"

definition orElseNat :: "nat option \<Rightarrow> nat \<Rightarrow> nat" where
  "orElseNat a b = (case a of None \<Rightarrow> b | Some v \<Rightarrow> if v = 0 then b else v)"

datatype error = TypeError

section \<open>Knowledge base (public/core/knowledge.js)\<close>

record contextConfig =
  ctx_weight :: "real option"
  ctx_subcategory :: "string option"

record marker =
  lex_category :: string
  lex_subcategory :: "string option"
  weight :: real
  contradicts :: "string list option"
  emotional_valence :: "real option"
  context_required :: bool
  valid_contexts :: "(string \<times> contextConfig) list option"

record pattern =
  pat_name :: string
  driver :: "string option"
  severity_threshold :: "real option"
  weight_multiplier :: "real option"

record driverInfo =
  drv_name :: string
  conflicts_with :: "string list option"

record knowledgeBase =
  lexicon :: "(string \<times> marker) list"
  patterns :: "(string \<times> pattern) list"
  drivers :: "(string \<times> driverInfo) list"
  hard_negation :: "string list"
  soft_negation :: "string list"
  conditional_negation :: "string list"
  amp_extreme :: "string list"
  amp_moderate :: "string list"
  amp_emotional :: "string list"
  dim_uncertainty :: "string list"
  dim_qualification :: "string list"
  dim_minimization :: "string list"
  window_size :: "nat option"

definition mk_marker :: "string \<Rightarrow> string option \<Rightarrow> real \<Rightarrow> string list option \<Rightarrow> real \<Rightarrow> marker" where
  "mk_marker c s w cs v =
     \<lparr>lex_category = c, lex_subcategory = s, weight = w, contradicts = cs,
      emotional_valence = Some v, context_required = False, valid_contexts = None\<rparr>"

definition should_contexts :: "(string \<times> contextConfig) list" where
  "should_contexts =
     [(''i_should'', \<lparr>ctx_weight = Some 4.0, ctx_subcategory = Some ''self_directed''\<rparr>),
      (''you_should'', \<lparr>ctx_weight = Some 2.5, ctx_subcategory = Some ''other_directed''\<rparr>),
      (''should_have'', \<lparr>ctx_weight = Some 5.0, ctx_subcategory = Some ''regret_focus''\<rparr>),
      (''should_not'', \<lparr>ctx_weight = Some 3.5, ctx_subcategory = Some ''prohibitive''\<rparr>)]"

definition KB_lexicon :: "(string \<times> marker) list" where
  "KB_lexicon =
     [(''always'', mk_marker ''absolutist'' (Some ''temporal_absolutism'') 2.5
         (Some [''sometimes'', ''occasionally'', ''rarely'']) (- 0.3)),
      (''never'', mk_marker ''absolutist'' (Some ''temporal_absolutism'') 2.5
         (Some [''sometimes'', ''often'', ''usually'']) (- 0.4)),
      (''everything'', mk_marker ''absolutist'' (Some ''binary_thinking'') 2.2
         (Some [''some'', ''few'', ''partial'']) (- 0.2)),
      (''nothing'', mk_marker ''absolutist'' (Some ''binary_thinking'') 2.4
         (Some [''something'', ''anything'']) (- 0.5)),
      (''should'', (mk_marker ''imperative'' None 3.0 None (- 0.6))
         \<lparr>context_required := True, valid_contexts := Some should_contexts\<rparr>),
      (''must'', mk_marker ''imperative'' None 3.5 None (- 0.7)),
      (''have_to'', (mk_marker ''imperative'' None 2.8 None (- 0.5))
         \<lparr>context_required := True\<rparr>),
      (''disaster'', mk_marker ''catastrophizing'' None 4.0 None (- 0.9)),
      (''terrible'', mk_marker ''catastrophizing'' None 3.2 None (- 0.8)),
      (''worst'', mk_marker ''catastrophizing'' None 3.5
         (Some [''best'', ''good'', ''okay'']) (- 0.7)),
      (''failure'', mk_marker ''self_critic'' None 3.8 None (- 0.8)),
      (''stupid'', mk_marker ''self_critic'' None 3.0 None (- 0.7)),
      (''useless'', mk_marker ''self_critic'' None 3.5 None (- 0.8)),
      (''my_fault'', mk_marker ''personalization'' None 4.0 None (- 0.7)),
      (''because_of_me'', mk_marker ''personalization'' None 3.5 None (- 0.6)),
      (''they_think'', mk_marker ''mind_reading'' None 2.5 None (- 0.4)),
      (''probably_thinks'', mk_marker ''mind_reading'' None 2.2 None (- 0.3)),
      (''feel_like'', mk_marker ''emotional_reasoning'' None 2.0 None (- 0.2))]"

definition mk_pattern :: "string \<Rightarrow> string \<Rightarrow> real \<Rightarrow> real \<Rightarrow> pattern" where
  "mk_pattern n d t m =
     \<lparr>pat_name = n, driver = Some d, severity_threshold = Some t, weight_multiplier = Some m\<rparr>"

definition KB_patterns :: "(string \<times> pattern) list" where
  "KB_patterns =
     [(''absolutist'', mk_pattern ''All-or-Nothing Thinking'' ''control'' 3 1.2),
      (''imperative'', mk_pattern ''Imperative Thinking'' ''validation'' 2 1.3),
      (''catastrophizing'', mk_pattern ''Catastrophic Thinking'' ''safety'' 2 1.5),
      (''self_critic'', mk_pattern ''Self-Critical Thinking'' ''validation'' 2 1.4),
      (''personalization'', mk_pattern ''Personalization'' ''responsibility'' 1 1.3),
      (''mind_reading'', mk_pattern ''Mind Reading'' ''validation'' 2 1.1),
      (''emotional_reasoning'', mk_pattern ''Emotional Reasoning'' ''certainty'' 2 1.1)]"

definition KB_drivers :: "(string \<times> driverInfo) list" where
  "KB_drivers =
     [(''control'', \<lparr>drv_name = ''Control & Certainty'',
         conflicts_with = Some [''acceptance'', ''flexibility'']\<rparr>),
      (''validation'', \<lparr>drv_name = ''Validation & Worth'',
         conflicts_with = Some [''autonomy'', ''self_compassion'']\<rparr>),
      (''safety'', \<lparr>drv_name = ''Safety & Protection'',
         conflicts_with = Some [''exploration'', ''growth'']\<rparr>),
      (''responsibility'', \<lparr>drv_name = ''Responsibility & Agency'',
         conflicts_with = Some [''self_compassion'', ''delegation'']\<rparr>),
      (''autonomy'', \<lparr>drv_name = ''Autonomy & Self-Determination'',
         conflicts_with = Some [''connection'', ''compliance'']\<rparr>)]"

definition KNOWLEDGE_BASE :: knowledgeBase where
  "KNOWLEDGE_BASE =
     \<lparr>lexicon = KB_lexicon, patterns = KB_patterns, drivers = KB_drivers,
      hard_negation = [''not'', ''never'', ''no'', ''don't'', ''won't'', ''can't'', ''isn't'', ''wasn't''],
      soft_negation = [''barely'', ''hardly'', ''scarcely'', ''rarely'', ''seldom''],
      conditional_negation = [''unless'', ''except'', ''but'', ''however'', ''although''],
      amp_extreme = [''very'', ''extremely'', ''completely'', ''totally'', ''utterly'', ''absolutely''],
      amp_moderate = [''really'', ''quite'', ''particularly'', ''especially''],
      amp_emotional = [''horribly'', ''terribly'', ''awfully'', ''dreadfully''],
      dim_uncertainty = [''somewhat'', ''kind_of'', ''a_bit'', ''slightly'', ''maybe'', ''perhaps''],
      dim_qualification = [''almost'', ''nearly'', ''practically'', ''virtually''],
      dim_minimization = [''just'', ''only'', ''merely'', ''simply''],
      window_size = Some 5\<rparr>"

section \<open>Engine construction (public/core/engine.js, constructor)\<close>

record options =
  opt_contextWindow :: "nat option"
  opt_temporalSegments :: "nat option"
  opt_minConfidence :: "real option"

record engine =
  kb :: knowledgeBase
  contextWindow :: nat
  temporalSegments :: nat
  minConfidenceThreshold :: real

definition noOptions :: options where
  "noOptions = \<lparr>opt_contextWindow = None, opt_temporalSegments = None, opt_minConfidence = None\<rparr>"

definition CognitiveEngine :: "knowledgeBase \<Rightarrow> options \<Rightarrow> engine" where
  "CognitiveEngine k opts =
     \<lparr>kb = k,
      contextWindow = orElseNat (opt_contextWindow opts) (orElseNat (window_size k) 5),
      temporalSegments = orElseNat (opt_temporalSegments opts) 3,
      minConfidenceThreshold = orElse (opt_minConfidence opts) 0.3\<rparr>"

text \<open>The version 3.0 engine (src/unnamed/part\_003) takes no options.\<close>

definition BasicEngine :: "knowledgeBase \<Rightarrow> engine" where
  "BasicEngine k =
     \<lparr>kb = k, contextWindow = (case window_size k of Some n \<Rightarrow> n | None \<Rightarrow> 0),
      temporalSegments = 3, minConfidenceThreshold = 0.3\<rparr>"

section \<open>Tokenization\<close>

definition is_space :: "char \<Rightarrow> bool" where
  "is_space c = (c \<in> set [CHR '' '', CHR 0x09, CHR 0x0A, CHR 0x0B, CHR 0x0C, CHR 0x0D])"

definition toLowerCase :: "string \<Rightarrow> string" where
  "toLowerCase s =
     map (\<lambda>c. let n = (of_char c :: nat) in if 65 \<le> n \<and> n \<le> 90 then char_of (n + 32) else c) s"

text \<open>\<^verbatim>\<open>str.split(/\s+/)\<close>: the pieces between maximal runs of white space.\<close>

function splitWs :: "string \<Rightarrow> string \<Rightarrow> string list" where
  "splitWs cur [] = [cur]"
| "splitWs cur (c # cs) =
     (if is_space c then cur # splitWs [] (dropWhile is_space cs) else splitWs (cur @ [c]) cs)"
  by pat_completeness auto
termination
  by (relation "measure (\<lambda>(cur, s). length s)") (auto simp: le_imp_less_Suc length_dropWhile_le)

definition punctEnhanced :: "char list" where
  "punctEnhanced = ''.,!?;:\"'()[]{}<>''"

definition punctBasic :: "char list" where
  "punctBasic = ''.,!?;:\"'()''"

text \<open>\<^verbatim>\<open>.replace(/[...]/g, ' $& ')\<close>\<close>

definition padPunct :: "char list \<Rightarrow> string \<Rightarrow> string" where
  "padPunct ps s = concat (map (\<lambda>c. if c \<in> set ps then [CHR '' '', c, CHR '' ''] else [c]) s)"

definition words_of :: "char list \<Rightarrow> string \<Rightarrow> string list" where
  "words_of ps text = filter (\<lambda>t. length t > 0) (splitWs [] (padPunct ps (toLowerCase text)))"

record token =
  tok_word :: string
  tok_position :: nat
  isPunctuation :: bool

text \<open>
  The enhanced tokenizer. The fields \<^verbatim>\<open>original\<close>, \<^verbatim>\<open>charPosition\<close> and the sentence
  fields of a token are copied into hits and read by no function modelled here.
\<close>

definition tokenize :: "string \<Rightarrow> token list" where
  "tokenize text =
     (let ws = words_of punctEnhanced text in
      map (\<lambda>i. \<lparr>tok_word = ws ! i, tok_position = i,
                 isPunctuation = (ws ! i \<noteq> [] \<and> list_all (\<lambda>c. c \<in> set punctEnhanced) (ws ! i))\<rparr>)
          [0..<length ws])"

definition tokenizeBasic :: "string \<Rightarrow> string list" where
  "tokenizeBasic text = words_of punctBasic text"

section \<open>Negation and modifier resolution (enhanced engine)\<close>

record negation =
  neg_isNegated :: bool
  neg_type :: string
  neg_strength :: real
  neg_negator :: "string option"
  neg_distance :: "nat option"

text \<open>\<^verbatim>\<open>tokens[i]?.word.toLowerCase()\<close>: absent when the index is out of range.\<close>

definition wordAt :: "token list \<Rightarrow> nat \<Rightarrow> string option" where
  "wordAt tokens i = (if i < length tokens then Some (toLowerCase (tok_word (tokens ! i))) else None)"

definition includesWord :: "string list \<Rightarrow> string option \<Rightarrow> bool" where
  "includesWord ws w = (case w of None \<Rightarrow> False | Some v \<Rightarrow> v \<in> set ws)"

definition negationTypes :: "knowledgeBase \<Rightarrow> (string \<times> string list \<times> real) list" where
  "negationTypes k =
     [(''hard'', hard_negation k, 1.0), (''soft'', soft_negation k, 0.6),
      (''conditional'', conditional_negation k, 0.3)]"

definition noNegation :: negation where
  "noNegation =
     \<lparr>neg_isNegated = False, neg_type = ''none'', neg_strength = 0, neg_negator = None,
      neg_distance = None\<rparr>"

definition negationStep :: "nat \<Rightarrow> nat \<Rightarrow> string option \<Rightarrow> string \<times> string list \<times> real \<Rightarrow> negation \<Rightarrow> negation" where
  "negationStep tokenIndex i w entry best =
     (case entry of (ty, ws, s) \<Rightarrow>
        if includesWord ws w then
          (let distance = tokenIndex - i;
               effectiveness = s * (1 - real distance / 6)
           in if effectiveness > neg_strength best
              then \<lparr>neg_isNegated = True, neg_type = ty, neg_strength = effectiveness,
                    neg_negator = w, neg_distance = Some distance\<rparr>
              else best)
        else best)"

definition bestNegationOf :: "knowledgeBase \<Rightarrow> nat \<Rightarrow> token list \<Rightarrow> negation" where
  "bestNegationOf k tokenIndex tokens =
     fold (\<lambda>i best. fold (negationStep tokenIndex i (wordAt tokens i)) (negationTypes k) best)
          [tokenIndex - 5 ..< tokenIndex] noNegation"

definition doubleNegationCount :: "knowledgeBase \<Rightarrow> nat \<Rightarrow> token list \<Rightarrow> nat" where
  "doubleNegationCount k tokenIndex tokens =
     length (filter (\<lambda>i. includesWord (hard_negation k) (wordAt tokens i))
                    [tokenIndex - 3 ..< tokenIndex])"

definition detectNegationAdvanced :: "knowledgeBase \<Rightarrow> nat \<Rightarrow> token list \<Rightarrow> negation" where
  "detectNegationAdvanced k tokenIndex tokens =
     (let bestNegation = bestNegationOf k tokenIndex tokens in
      if neg_isNegated bestNegation then
        (let n = doubleNegationCount k tokenIndex tokens in
         if n > 1 \<and> n mod 2 = 0
         then bestNegation\<lparr>neg_isNegated := False, neg_strength := 0, neg_type := ''double_negative''\<rparr>
         else bestNegation)
      else bestNegation)"

record modifierWord =
  mod_word :: "string option"
  mod_type :: string
  mod_distance :: nat

record modifierEffect =
  multiplier :: real
  intensifiers :: "modifierWord list"
  diminishers :: "modifierWord list"
  hasConflict :: bool

definition distanceWeight :: "nat \<Rightarrow> real" where
  "distanceWeight distance = max 0.5 (1.0 - real distance * 0.2)"

definition amplifierStep :: "knowledgeBase \<Rightarrow> string option \<Rightarrow> nat \<Rightarrow> real \<times> modifierWord list \<Rightarrow> real \<times> modifierWord list" where
  "amplifierStep k w distance st =
     (case st of (m, ints) \<Rightarrow>
        if includesWord (amp_extreme k) w
        then (m + 0.5 * distanceWeight distance,
              ints @ [\<lparr>mod_word = w, mod_type = ''extreme'', mod_distance = distance\<rparr>])
        else if includesWord (amp_moderate k) w
        then (m + 0.3 * distanceWeight distance,
              ints @ [\<lparr>mod_word = w, mod_type = ''moderate'', mod_distance = distance\<rparr>])
        else if includesWord (amp_emotional k) w
        then (m + 0.4 * distanceWeight distance,
              ints @ [\<lparr>mod_word = w, mod_type = ''emotional'', mod_distance = distance\<rparr>])
        else (m, ints))"

definition diminisherStep :: "knowledgeBase \<Rightarrow> string option \<Rightarrow> nat \<Rightarrow> real \<times> modifierWord list \<Rightarrow> real \<times> modifierWord list" where
  "diminisherStep k w distance st =
     (case st of (m, dims) \<Rightarrow>
        if includesWord (dim_uncertainty k) w
        then (m - 0.4 * distanceWeight distance,
              dims @ [\<lparr>mod_word = w, mod_type = ''uncertainty'', mod_distance = distance\<rparr>])
        else if includesWord (dim_qualification k) w
        then (m - 0.3 * distanceWeight distance,
              dims @ [\<lparr>mod_word = w, mod_type = ''qualification'', mod_distance = distance\<rparr>])
        else if includesWord (dim_minimization k) w
        then (m - 0.2 * distanceWeight distance,
              dims @ [\<lparr>mod_word = w, mod_type = ''minimization'', mod_distance = distance\<rparr>])
        else (m, dims))"

definition modifierStep :: "knowledgeBase \<Rightarrow> nat \<Rightarrow> token list \<Rightarrow> nat \<Rightarrow> real \<times> modifierWord list \<times> modifierWord list \<Rightarrow> real \<times> modifierWord list \<times> modifierWord list" where
  "modifierStep k tokenIndex tokens i st =
     (case st of (m, ints, dims) \<Rightarrow>
        (let w = wordAt tokens i;
             distance = tokenIndex - i;
             (m1, ints') = amplifierStep k w distance (m, ints);
             (m2, dims') = diminisherStep k w distance (m1, dims)
         in (m2, ints', dims')))"

definition clampMultiplier :: "real \<Rightarrow> real" where
  "clampMultiplier m = max 0.1 (min 3.0 m)"

definition analyzeModifiersAdvanced :: "knowledgeBase \<Rightarrow> nat \<Rightarrow> token list \<Rightarrow> modifierEffect" where
  "analyzeModifiersAdvanced k tokenIndex tokens =
     (case fold (modifierStep k tokenIndex tokens) [tokenIndex - 3 ..< tokenIndex] (1.0, [], []) of
        (m, ints, dims) \<Rightarrow>
          (let conflict = (length ints > 0 \<and> length dims > 0);
               m' = (if conflict
                     then m * (1 - real (min (length ints) (length dims)) * 0.2)
                     else m)
           in \<lparr>multiplier = clampMultiplier m', intensifiers = ints, diminishers = dims,
               hasConflict = conflict\<rparr>))"

section \<open>Context, semantic matching and weight adjustment\<close>

record windowContext =
  preceding :: "string list"
  following :: "string list"
  fullWindow :: "string list"
  positionInWindow :: nat

text \<open>\<^verbatim>\<open>xs.slice(a, b)\<close> for \<open>0 \<le> a\<close>.\<close>

definition slice :: "'a list \<Rightarrow> nat \<Rightarrow> nat \<Rightarrow> 'a list" where
  "slice xs a b = take (b - a) (drop a xs)"

definition extractEnhancedContext :: "engine \<Rightarrow> token list \<Rightarrow> nat \<Rightarrow> windowContext" where
  "extractEnhancedContext eng tokens index =
     (let start = index - contextWindow eng;
          end' = min (length tokens) (index + contextWindow eng + 1)
      in \<lparr>preceding = map tok_word (slice tokens start index),
          following = map tok_word (slice tokens (index + 1) end'),
          fullWindow = map tok_word (slice tokens start end'),
          positionInWindow = index - start\<rparr>)"

definition extractContext :: "engine \<Rightarrow> string list \<Rightarrow> nat \<Rightarrow> windowContext" where
  "extractContext eng tokens index =
     (let start = index - contextWindow eng;
          end' = min (length tokens) (index + contextWindow eng + 1)
      in \<lparr>preceding = slice tokens start index,
          following = slice tokens (index + 1) end',
          fullWindow = slice tokens start end',
          positionInWindow = index - start\<rparr>)"

fun joinWith :: "char \<Rightarrow> string list \<Rightarrow> string" where
  "joinWith sep [] = []"
| "joinWith sep [w] = w"
| "joinWith sep (w # ws) = w @ sep # joinWith sep ws"

fun startsWith :: "string \<Rightarrow> string \<Rightarrow> bool" where
  "startsWith s [] = True"
| "startsWith [] (p # ps) = False"
| "startsWith (c # cs) (p # ps) = (c = p \<and> startsWith cs ps)"

fun includesStr :: "string \<Rightarrow> string \<Rightarrow> bool" where
  "includesStr [] pat = startsWith [] pat"
| "includesStr (c # cs) pat = (startsWith (c # cs) pat \<or> includesStr cs pat)"

record semanticContext =
  match :: bool
  contextPattern :: string
  contextWeight :: "real option"

definition matchSemanticPattern :: "knowledgeBase \<Rightarrow> string \<Rightarrow> windowContext \<Rightarrow> semanticContext" where
  "matchSemanticPattern k tok ctx =
     (case map_of (lexicon k) tok of
        None \<Rightarrow> \<lparr>match = False, contextPattern = [], contextWeight = None\<rparr>
      | Some m \<Rightarrow>
          (let general = \<lparr>match = True, contextPattern = ''general'', contextWeight = Some (weight m)\<rparr>
           in case (if context_required m then valid_contexts m else None) of
                None \<Rightarrow> general
              | Some vcs \<Rightarrow>
                  (let fullContext = joinWith CHR ''_'' (fullWindow ctx);
                       precedingContext = joinWith CHR ''_'' (preceding ctx)
                   in case find (\<lambda>(pat, config). includesStr fullContext pat \<or> includesStr precedingContext pat) vcs of
                        Some (pat, config) \<Rightarrow>
                          \<lparr>match = True, contextPattern = pat,
                           contextWeight = Some (orElse (ctx_weight config) (weight m))\<rparr>
                      | None \<Rightarrow> general)))"

definition calculateAdjustedWeight :: "real \<Rightarrow> negation \<Rightarrow> real \<Rightarrow> semanticContext \<Rightarrow> real" where
  "calculateAdjustedWeight baseWeight negationState mult sem =
     (if \<not> match sem then 0
      else
        (let w0 = orElse (contextWeight sem) baseWeight;
             w1 = (if neg_isNegated negationState then w0 * (1 - neg_strength negationState) else w0);
             w2 = w1 * mult
         in max 0.1 w2))"

datatype segment = early | middle | late

definition getTemporalSegment :: "engine \<Rightarrow> nat \<Rightarrow> nat \<Rightarrow> segment" where
  "getTemporalSegment eng position totalLength =
     (let segmentSize = real totalLength / real (temporalSegments eng) in
      if real position < segmentSize then early
      else if real position < segmentSize * 2 then middle
      else late)"

section \<open>Hits and the parsing loop\<close>

record hit =
  word :: string
  position :: nat
  category :: string
  subcategory :: "string option"
  baseWeight :: real
  adjustedWeight :: real
  isNegated :: bool
  negationType :: string
  negationStrength :: real
  hitModifierEffect :: real
  hit_intensifiers :: "modifierWord list"
  hit_diminishers :: "modifierWord list"
  hasModifierConflict :: bool
  modifiers :: "modifierWord list option"
  hitSemanticContext :: string
  temporalSegment :: segment
  emotionalValence :: real

text \<open>
  One iteration of the loop of \<^verbatim>\<open>parseTextWithEnhancements\<close>: the hit pushed for token
  \<open>i\<close>, if any. The hit fields \<^verbatim>\<open>originalWord\<close>, \<^verbatim>\<open>charPosition\<close>, \<^verbatim>\<open>context\<close>,
  \<^verbatim>\<open>clinicalNote\<close> and \<^verbatim>\<open>token\<close> are written and never read by the functions below.
  The field \<open>modifiers\<close> exists only on hits of the version 3.0 engine.
\<close>

definition enhancedHitAt :: "engine \<Rightarrow> token list \<Rightarrow> nat \<Rightarrow> hit option" where
  "enhancedHitAt eng tokens i =
     (let tok = tokens ! i in
      if isPunctuation tok then None
      else case map_of (lexicon (kb eng)) (tok_word tok) of
        None \<Rightarrow> None
      | Some m \<Rightarrow>
          (let ctx = extractEnhancedContext eng tokens i;
               negationState = detectNegationAdvanced (kb eng) i tokens;
               modEffect = analyzeModifiersAdvanced (kb eng) i tokens;
               sem = matchSemanticPattern (kb eng) (tok_word tok) ctx;
               aw = calculateAdjustedWeight (weight m) negationState (multiplier modEffect) sem
           in if aw > 0.3
              then Some \<lparr>word = tok_word tok, position = i, category = lex_category m,
                         subcategory = lex_subcategory m, baseWeight = weight m,
                         adjustedWeight = aw, isNegated = neg_isNegated negationState,
                         negationType = neg_type negationState,
                         negationStrength = neg_strength negationState,
                         hitModifierEffect = multiplier modEffect,
                         hit_intensifiers = intensifiers modEffect,
                         hit_diminishers = diminishers modEffect,
                         hasModifierConflict = hasConflict modEffect, modifiers = None,
                         hitSemanticContext = contextPattern sem,
                         temporalSegment = getTemporalSegment eng i (length tokens),
                         emotionalValence = orElse (emotional_valence m) 0\<rparr>
              else None))"

definition parseTextWithEnhancements :: "engine \<Rightarrow> string \<Rightarrow> hit list" where
  "parseTextWithEnhancements eng text =
     (let tokens = tokenize text in List.map_filter (enhancedHitAt eng tokens) [0..<length tokens])"

section \<open>The version 3.0 engine: negation, modifiers, parsing (src/unnamed/part\_003)\<close>

definition indexOf :: "'a list \<Rightarrow> 'a \<Rightarrow> nat" where
  "indexOf xs x = length (takeWhile (\<lambda>y. y \<noteq> x) xs)"

definition detectNegation :: "knowledgeBase \<Rightarrow> windowContext \<Rightarrow> negation" where
  "detectNegation k ctx =
     (let pre = preceding ctx in
      case find (\<lambda>w. w \<in> set (hard_negation k) \<and> length pre - indexOf pre w - 1 \<le> 3) pre of
        Some w \<Rightarrow>
          \<lparr>neg_isNegated = True, neg_type = ''hard'', neg_strength = 1.0, neg_negator = Some w,
           neg_distance = Some (length pre - indexOf pre w - 1)\<rparr>
      | None \<Rightarrow>
          (case find (\<lambda>w. w \<in> set (soft_negation k)) pre of
             Some w \<Rightarrow>
               \<lparr>neg_isNegated = True, neg_type = ''soft'', neg_strength = 0.6, neg_negator = Some w,
                neg_distance = None\<rparr>
           | None \<Rightarrow>
               \<lparr>neg_isNegated = False, neg_type = ''none'', neg_strength = 0, neg_negator = None,
                neg_distance = None\<rparr>))"

record basicModifierEffect =
  bm_multiplier :: real
  bm_modifiers :: "modifierWord list"

definition basicModifierStep :: "knowledgeBase \<Rightarrow> nat \<Rightarrow> nat \<times> string \<Rightarrow> real \<times> modifierWord list \<Rightarrow> real \<times> modifierWord list" where
  "basicModifierStep k len entry st =
     (case (entry, st) of ((idx, w), (m, mods)) \<Rightarrow>
        (let distance = len - idx;
             dw = distanceWeight distance
         in if w \<in> set (amp_extreme k)
            then (m + 0.4 * dw, mods @ [\<lparr>mod_word = Some w, mod_type = ''extreme_amplifier'', mod_distance = distance\<rparr>])
            else if w \<in> set (amp_moderate k)
            then (m + 0.2 * dw, mods @ [\<lparr>mod_word = Some w, mod_type = ''moderate_amplifier'', mod_distance = distance\<rparr>])
            else if w \<in> set (amp_emotional k)
            then (m + 0.3 * dw, mods @ [\<lparr>mod_word = Some w, mod_type = ''emotional_amplifier'', mod_distance = distance\<rparr>])
            else if w \<in> set (dim_uncertainty k)
            then (m - 0.3 * dw, mods @ [\<lparr>mod_word = Some w, mod_type = ''uncertainty_diminisher'', mod_distance = distance\<rparr>])
            else if w \<in> set (dim_qualification k)
            then (m - 0.2 * dw, mods @ [\<lparr>mod_word = Some w, mod_type = ''qualification_diminisher'', mod_distance = distance\<rparr>])
            else (m, mods)))"

definition analyzeModifiers :: "knowledgeBase \<Rightarrow> windowContext \<Rightarrow> basicModifierEffect" where
  "analyzeModifiers k ctx =
     (let pre = preceding ctx in
      case fold (basicModifierStep k (length pre)) (zip [0..<length pre] pre) (1.0, []) of
        (m, mods) \<Rightarrow> \<lparr>bm_multiplier = clampMultiplier m, bm_modifiers = mods\<rparr>)"

definition basicHitAt :: "engine \<Rightarrow> string list \<Rightarrow> nat \<Rightarrow> hit option" where
  "basicHitAt eng tokens i =
     (let tok = tokens ! i in
      case map_of (lexicon (kb eng)) tok of
        None \<Rightarrow> None
      | Some m \<Rightarrow>
          (let ctx = extractContext eng tokens i;
               negationState = detectNegation (kb eng) ctx;
               modEffect = analyzeModifiers (kb eng) ctx;
               sem = matchSemanticPattern (kb eng) tok ctx;
               aw = calculateAdjustedWeight (weight m) negationState (bm_multiplier modEffect) sem
           in if aw > 0.3
              then Some \<lparr>word = tok, position = i, category = lex_category m,
                         subcategory = lex_subcategory m, baseWeight = weight m,
                         adjustedWeight = aw, isNegated = neg_isNegated negationState,
                         negationType = neg_type negationState,
                         negationStrength = neg_strength negationState,
                         hitModifierEffect = bm_multiplier modEffect,
                         hit_intensifiers = [], hit_diminishers = [],
                         hasModifierConflict = False, modifiers = Some (bm_modifiers modEffect),
                         hitSemanticContext = contextPattern sem,
                         temporalSegment = getTemporalSegment eng i (length tokens),
                         emotionalValence = orElse (emotional_valence m) 0\<rparr>
              else None))"

definition parseText :: "engine \<Rightarrow> string \<Rightarrow> hit list" where
  "parseText eng input =
     (let tokens = tokenizeBasic input in List.map_filter (basicHitAt eng tokens) [0..<length tokens])"

section \<open>Pattern aggregation\<close>

record markerEntry =
  m_word :: string
  m_weight :: real
  m_negated :: bool

text \<open>
  The per-category statistics. The type fixes the shape of \<^verbatim>\<open>patternScores[category]\<close>;
  \<open>categoryField\<close> is the property \<^verbatim>\<open>category\<close> that the confidence scorer looks up and
  that the aggregators never set. The sub-pattern and temporal tables, the marker position
  and \<^verbatim>\<open>intensity\<close> are written by the aggregators and read by no function modelled here.
\<close>

record patternData =
  score :: real
  count :: nat
  weightedScore :: real
  positions :: "nat list"
  emotionalValences :: "real list"
  confidence :: real
  markers :: "markerEntry list"
  clusters :: "hit list list"
  avgValence :: real
  pd_severity :: "bool option"
  categoryField :: "string option"

definition emptyPatternData :: patternData where
  "emptyPatternData =
     \<lparr>score = 0, count = 0, weightedScore = 0, positions = [], emotionalValences = [],
      confidence = 0, markers = [], clusters = [], avgValence = 0, pd_severity = None,
      categoryField = None\<rparr>"

definition addHit :: "hit \<Rightarrow> patternData \<Rightarrow> patternData" where
  "addHit h d =
     d\<lparr>score := score d + adjustedWeight h,
       count := count d + 1,
       weightedScore := weightedScore d + adjustedWeight h * (if isNegated h then 0.5 else 1.0),
       positions := positions d @ [position h],
       emotionalValences := emotionalValences d @ [emotionalValence h],
       markers := markers d @ [\<lparr>m_word = word h, m_weight = adjustedWeight h, m_negated = isNegated h\<rparr>]\<rparr>"

text \<open>\<^verbatim>\<open>if (!obj[key]) obj[key] = init; obj[key] = f(obj[key])\<close> on an insertion-ordered object.\<close>

definition upsert :: "string \<Rightarrow> 'v \<Rightarrow> ('v \<Rightarrow> 'v) \<Rightarrow> (string \<times> 'v) list \<Rightarrow> (string \<times> 'v) list" where
  "upsert key init f kvs =
     (if key \<in> fst ` set kvs
      then map (\<lambda>(k', v). if k' = key then (k', f v) else (k', v)) kvs
      else kvs @ [(key, f init)])"

definition accumulateHits :: "hit list \<Rightarrow> (string \<times> patternData) list" where
  "accumulateHits hs = fold (\<lambda>h ps. upsert (category h) emptyPatternData (addHit h) ps) hs []"

fun clusterLoop :: "hit list \<Rightarrow> hit list \<Rightarrow> hit list list" where
  "clusterLoop cur [] = (if length cur \<ge> 2 then [cur] else [])"
| "clusterLoop cur (h # hs) =
     (if cur = [] then clusterLoop [h] hs
      else if int (position h) - int (position (last cur)) \<le> 5 then clusterLoop (cur @ [h]) hs
      else (if length cur \<ge> 2 then [cur] else []) @ clusterLoop [h] hs)"

definition detectPatternClusters :: "hit list \<Rightarrow> hit list list" where
  "detectPatternClusters hs =
     (if length hs < 2 then [] else clusterLoop [] (sort_key position hs))"

definition average :: "real list \<Rightarrow> real" where
  "average xs = sum_list xs / real (length xs)"

definition gapsOf :: "nat list \<Rightarrow> real list" where
  "gapsOf ps = map (\<lambda>i. real (ps ! i) - real (ps ! (i - 1))) [1..<length ps]"

definition varianceOf :: "real list \<Rightarrow> real" where
  "varianceOf xs = sum_list (map (\<lambda>x. (x - average xs)\<^sup>2) xs) / real (length xs)"

definition calculateEnhancedDistributionScore :: "nat list \<Rightarrow> nat \<Rightarrow> real" where
  "calculateEnhancedDistributionScore ps totalLength =
     (if length ps < 2 then 0.5
      else
        (let gaps = gapsOf ps;
             idealGap = real totalLength / real (length ps);
             variance = varianceOf gaps;
             clusteringScore = (if variance < idealGap * 0.5 then 0.3 else 0.7)
         in max 0.1 clusteringScore))"

definition calculateDistributionScore :: "nat list \<Rightarrow> nat \<Rightarrow> real" where
  "calculateDistributionScore ps totalLength =
     (if length ps < 2 then 0.5
      else
        (let gaps = gapsOf ps;
             idealGap = real totalLength / real (length ps);
             variance = varianceOf gaps;
             normalizedVariance = variance / idealGap\<^sup>2
         in max 0.1 (1 - min 1 normalizedVariance)))"

definition negatedCount :: "patternData \<Rightarrow> nat" where
  "negatedCount d = length (filter m_negated (markers d))"

definition countFactor :: "patternData \<Rightarrow> real" where
  "countFactor d = min (real (count d) / 5) 1"

definition weightFactor :: "patternData \<Rightarrow> real" where
  "weightFactor d = weightedScore d / (real (count d) * 5)"

definition clusterFactor :: "patternData \<Rightarrow> real" where
  "clusterFactor d = min (real (length (clusters d)) / 3) 1"

definition negationFactor :: "patternData \<Rightarrow> real" where
  "negationFactor d = 1 - (real (negatedCount d) / real (length (markers d)) * 0.5)"

definition applyPattern :: "knowledgeBase \<Rightarrow> string \<Rightarrow> patternData \<Rightarrow> patternData" where
  "applyPattern k c d =
     (case map_of (patterns k) c of
        None \<Rightarrow> d
      | Some p \<Rightarrow>
          d\<lparr>confidence := confidence d * orElse (weight_multiplier p) 1.0,
            pd_severity := Some (weightedScore d \<ge> orElse (severity_threshold p) 2)\<rparr>)"

definition withAvgValence :: "patternData \<Rightarrow> patternData" where
  "withAvgValence d =
     d\<lparr>avgValence := (if length (emotionalValences d) > 0 then average (emotionalValences d) else 0)\<rparr>"

definition finishEnhanced :: "knowledgeBase \<Rightarrow> nat \<Rightarrow> string \<Rightarrow> patternData \<Rightarrow> patternData" where
  "finishEnhanced k totalHits c d0 =
     (let d = withAvgValence d0;
          distributionFactor = calculateEnhancedDistributionScore (positions d) totalHits
      in applyPattern k c
           (d\<lparr>confidence := countFactor d * 0.25 + weightFactor d * 0.25 + distributionFactor * 0.2
                               + clusterFactor d * 0.2 + negationFactor d * 0.1\<rparr>))"

definition finishBasic :: "knowledgeBase \<Rightarrow> nat \<Rightarrow> string \<Rightarrow> patternData \<Rightarrow> patternData" where
  "finishBasic k totalHits c d0 =
     (let d = withAvgValence d0;
          distributionFactor = calculateDistributionScore (positions d) totalHits
      in applyPattern k c
           (d\<lparr>confidence := countFactor d * 0.3 + weightFactor d * 0.3 + distributionFactor * 0.2
                               + negationFactor d * 0.2\<rparr>))"

record aggregation =
  patternScores :: "(string \<times> patternData) list"
  aggClusters :: "hit list list"

text \<open>
  \<^verbatim>\<open>aggregatePatternsWithClusters\<close>. After the hits are folded in, the source runs
  \<^verbatim>\<open>clusters.forEach(cluster => cluster.patterns.counts.forEach(...))\<close>, where
  \<^verbatim>\<open>counts\<close> is the plain object built by \<^verbatim>\<open>analyzeClusterPatterns\<close>; a plain object has
  no \<^verbatim>\<open>forEach\<close>, so the call raises a TypeError for the first cluster, and the cluster list
  of every category stays empty when there is none.
\<close>

definition aggregatePatternsWithClusters :: "knowledgeBase \<Rightarrow> hit list \<Rightarrow> error + aggregation" where
  "aggregatePatternsWithClusters k hs =
     (let cls = detectPatternClusters hs;
          ps = accumulateHits hs
      in if cls \<noteq> [] then Inl TypeError
         else Inr \<lparr>patternScores = map (\<lambda>(c, d). (c, finishEnhanced k (length hs) c d)) ps,
                   aggClusters = cls\<rparr>)"

definition aggregatePatterns :: "knowledgeBase \<Rightarrow> hit list \<Rightarrow> (string \<times> patternData) list" where
  "aggregatePatterns k hs = map (\<lambda>(c, d). (c, finishBasic k (length hs) c d)) (accumulateHits hs)"





section \<open>Driver inference\<close>

record contributingPattern =
  cp_pattern :: string
  cp_weight :: real
  contribution :: real
  cp_confidence :: real

record driverData =
  d_score :: real
  d_weightedScore :: real
  contributingPatterns :: "contributingPattern list"
  d_confidence :: real
  normalizedScore :: real
  primary :: bool
  d_conflicts :: "string list"

definition emptyDriverData :: driverData where
  "emptyDriverData =
     \<lparr>d_score = 0, d_weightedScore = 0, contributingPatterns = [], d_confidence = 0,
      normalizedScore = 0, primary = False, d_conflicts = []\<rparr>"

definition addPattern :: "string \<Rightarrow> pattern \<Rightarrow> patternData \<Rightarrow> driverData \<Rightarrow> driverData" where
  "addPattern c p pd dd =
     (let driverContribution = weightedScore pd * orElse (weight_multiplier p) 1.0
      in dd\<lparr>d_score := d_score dd + score pd,
             d_weightedScore := d_weightedScore dd + driverContribution,
             contributingPatterns := contributingPatterns dd @
               [\<lparr>cp_pattern = c, cp_weight = weightedScore pd, contribution = driverContribution,
                 cp_confidence = confidence pd\<rparr>],
             d_confidence := max (d_confidence dd) (confidence pd)\<rparr>)"

definition driverStep :: "knowledgeBase \<Rightarrow> string \<times> patternData \<Rightarrow> (string \<times> driverData) list \<Rightarrow> (string \<times> driverData) list" where
  "driverStep k entry ds =
     (case entry of (c, pd) \<Rightarrow>
        (case map_of (patterns k) c of
           None \<Rightarrow> ds
         | Some p \<Rightarrow>
             (case driver p of
                None \<Rightarrow> ds
              | Some d \<Rightarrow> if d = [] then ds else upsert d emptyDriverData (addPattern c p pd) ds)))"

definition normalizeDriver :: "knowledgeBase \<Rightarrow> string \<Rightarrow> driverData \<Rightarrow> driverData" where
  "normalizeDriver k d dd =
     (let dd' = dd\<lparr>normalizedScore := min 10 (d_weightedScore dd / 5)\<rparr>;
          dd'' = dd'\<lparr>primary := (normalizedScore dd' \<ge> 5)\<rparr>
      in case map_of (drivers k) d of
           None \<Rightarrow> dd''
         | Some info \<Rightarrow> dd''\<lparr>d_conflicts := (case conflicts_with info of Some cs \<Rightarrow> cs | None \<Rightarrow> [])\<rparr>)"

text \<open>Version 3.0: \<^verbatim>\<open>inferDrivers\<close>, which leaves the contributing patterns in insertion order.\<close>

definition inferDrivers :: "knowledgeBase \<Rightarrow> (string \<times> patternData) list \<Rightarrow> (string \<times> driverData) list" where
  "inferDrivers k ps = map (\<lambda>(d, dd). (d, normalizeDriver k d dd)) (fold (driverStep k) ps [])"

text \<open>
  Version 3.2: \<^verbatim>\<open>inferDriversWithConfidence\<close>, whose last loop sorts with the comparator
  \<^verbatim>\<open>(a, b) => b.contribution - a.contribution\<close> (a stable sort).
\<close>

definition sortContributing :: "driverData \<Rightarrow> driverData" where
  "sortContributing dd =
     dd\<lparr>contributingPatterns := sort_key (\<lambda>p. - contribution p) (contributingPatterns dd)\<rparr>"

definition inferDriversWithConfidence :: "knowledgeBase \<Rightarrow> (string \<times> patternData) list \<Rightarrow> (string \<times> driverData) list" where
  "inferDriversWithConfidence k ps =
     map (\<lambda>(d, dd). (d, sortContributing (normalizeDriver k d dd))) (fold (driverStep k) ps [])"

section \<open>Conflict detection\<close>

text \<open>
  A conflict as the detectors emit it. The text fields (\<^verbatim>\<open>interpretation\<close>,
  \<^verbatim>\<open>recommendation\<close>, names) are not read by the detectors or the coherence functions.
\<close>

record conflict =
  c_type :: string
  severity :: real
  c_words :: "string list"
  c_positions :: "nat list"

definition severityOr :: "conflict \<Rightarrow> real" where
  "severityOr c = orElse (Some (severity c)) 0.5"

definition contradictsWord :: "knowledgeBase \<Rightarrow> hit \<Rightarrow> hit \<Rightarrow> bool" where
  "contradictsWord k h1 h2 =
     (case map_of (lexicon k) (word h1) of
        None \<Rightarrow> False
      | Some m \<Rightarrow> (case contradicts m of None \<Rightarrow> False | Some cs \<Rightarrow> word h2 \<in> set cs))"

text \<open>The index pairs for which the lexical scan of \<^verbatim>\<open>detectEnhancedConflicts\<close> pushes a conflict.\<close>

definition enhancedLexicalPairs :: "knowledgeBase \<Rightarrow> hit list \<Rightarrow> (nat \<times> nat) list" where
  "enhancedLexicalPairs k hs =
     concat (map (\<lambda>i. map (\<lambda>j. (i, j))
                          (filter (\<lambda>j. contradictsWord k (hs ! i) (hs ! j))
                                  [i + 1 ..< min (i + 10) (length hs)]))
                 [0..<length hs])"

definition enhancedLexicalConflict :: "hit list \<Rightarrow> nat \<times> nat \<Rightarrow> conflict" where
  "enhancedLexicalConflict hs ij =
     (case ij of (i, j) \<Rightarrow>
        (let hit = hs ! i; otherHit = hs ! j;
             distance = real (position otherHit) - real (position hit);
             distanceFactor = max 0 (1 - distance / 20)
         in \<lparr>c_type = ''lexical_contradiction'',
             severity = (adjustedWeight hit + adjustedWeight otherHit) * distanceFactor * 0.3,
             c_words = [word hit, word otherHit],
             c_positions = [position hit, position otherHit]\<rparr>))"

definition driverConflictAt :: "knowledgeBase \<Rightarrow> (string \<times> driverData) list \<Rightarrow> nat \<Rightarrow> nat \<Rightarrow> conflict list" where
  "driverConflictAt k ds i j =
     (case (ds ! i, ds ! j) of ((d1, x1), (d2, x2)) \<Rightarrow>
        (case (map_of (drivers k) d1, map_of (drivers k) d2) of
           (Some i1, Some i2) \<Rightarrow>
             (case conflicts_with i1 of
                None \<Rightarrow> []
              | Some cw \<Rightarrow>
                  if d2 \<in> set cw \<and> normalizedScore x1 > 3 \<and> normalizedScore x2 > 3
                  then [\<lparr>c_type = ''driver_conflict'',
                         severity = (normalizedScore x1 + normalizedScore x2) / 20,
                         c_words = [d1, d2], c_positions = []\<rparr>]
                  else [])
         | _ \<Rightarrow> []))"

definition driverConflicts :: "knowledgeBase \<Rightarrow> (string \<times> driverData) list \<Rightarrow> conflict list" where
  "driverConflicts k ds =
     concat (map (\<lambda>i. concat (map (driverConflictAt k ds i) [i + 1 ..< length ds])) [0..<length ds])"

definition selfNegationConflicts :: "real \<Rightarrow> real \<Rightarrow> hit list \<Rightarrow> conflict list" where
  "selfNegationConflicts threshold factor hs =
     map (\<lambda>h. \<lparr>c_type = ''self_negation'', severity = adjustedWeight h * factor,
                c_words = [word h], c_positions = [position h]\<rparr>)
         (filter (\<lambda>h. isNegated h \<and> adjustedWeight h > threshold) hs)"

definition modifierConflicts :: "hit list \<Rightarrow> conflict list" where
  "modifierConflicts hs =
     map (\<lambda>h. \<lparr>c_type = ''modifier_conflict'', severity = adjustedWeight h * 0.15,
                c_words = [word h], c_positions = []\<rparr>)
         (filter hasModifierConflict hs)"

definition detectEnhancedConflicts :: "knowledgeBase \<Rightarrow> (string \<times> driverData) list \<Rightarrow> hit list \<Rightarrow> conflict list" where
  "detectEnhancedConflicts k ds hs =
     sort_key (\<lambda>c. - severity c)
       (driverConflicts k ds
        @ map (enhancedLexicalConflict hs) (enhancedLexicalPairs k hs)
        @ selfNegationConflicts 2 0.2 hs
        @ modifierConflicts hs)"

subsection \<open>The standalone conflict resolver (src/unnamed/part\_000)\<close>







section \<open>Coherence and the analysis of the enhanced engine\<close>

definition calculateDistributionBonus :: "hit list \<Rightarrow> real" where
  "calculateDistributionBonus hs =
     (if length hs < 3 then 0
      else
        (let ps = map position hs;
             spread = real (Max (set ps)) - real (Min (set ps))
         in if spread = 0 then 0
            else
              (let density = real (length hs) / spread;
                   optimalDensity = 0.3;
                   densityScore = 1 - min 1 (\<bar>density - optimalDensity\<bar> / optimalDensity)
               in densityScore * 0.1)))"

definition calculateEnhancedCoherence :: "hit list \<Rightarrow> conflict list \<Rightarrow> hit list list \<Rightarrow> real" where
  "calculateEnhancedCoherence hs conflicts cls =
     (let baseCoherence = 0.7;
          conflictPenalty = sum_list (map severityOr conflicts) * 0.1;
          clusterBonus = min 0.2 (real (length cls) * 0.05);
          distributionBonus = calculateDistributionBonus hs;
          sentimentBonus = 0
      in max 0.1 (min 1 (baseCoherence - conflictPenalty + clusterBonus + distributionBonus + sentimentBonus)))"

text \<open>
  The analysis result with the fields the properties below are about. The remaining fields
  (temporal shift, sentiment, insights, metadata) are computed from these and from the text.
\<close>

record analysis =
  hits :: "hit list"
  a_patterns :: "(string \<times> patternData) list"
  a_drivers :: "(string \<times> driverData) list"
  a_conflicts :: "conflict list"
  coherence :: real

definition analyze :: "engine \<Rightarrow> string \<Rightarrow> error + analysis" where
  "analyze eng text =
     (let hs = parseTextWithEnhancements eng text in
      case aggregatePatternsWithClusters (kb eng) hs of
        Inl e \<Rightarrow> Inl e
      | Inr agg \<Rightarrow>
          (let ds = inferDriversWithConfidence (kb eng) (patternScores agg);
               cs = detectEnhancedConflicts (kb eng) ds hs
           in Inr \<lparr>hits = hs, a_patterns = patternScores agg, a_drivers = ds, a_conflicts = cs,
                   coherence = calculateEnhancedCoherence hs cs (aggClusters agg)\<rparr>))"

section \<open>Result cache\<close>

text \<open>The cache is a JavaScript \<^verbatim>\<open>Map\<close>: entries in insertion order, a key at most once.\<close>

definition mapSet :: "'k \<Rightarrow> 'v \<Rightarrow> ('k \<times> 'v) list \<Rightarrow> ('k \<times> 'v) list" where
  "mapSet key v c =
     (if key \<in> fst ` set c
      then map (\<lambda>(k', x). if k' = key then (k', v) else (k', x)) c
      else c @ [(key, v)])"

definition setToCache :: "'k \<Rightarrow> 'v \<Rightarrow> ('k \<times> 'v) list \<Rightarrow> ('k \<times> 'v) list" where
  "setToCache key a c = mapSet key a (if length c > 100 then tl c else c)"

text \<open>A run of cache insertions, one per analysed text, starting from the empty cache.\<close>

definition cacheAfter :: "('k \<times> 'v) list \<Rightarrow> ('k \<times> 'v) list" where
  "cacheAfter inserts = fold (\<lambda>(key, a) c. setToCache key a c) inserts []"

section \<open>Confidence scorer (src/unnamed/part\_002)\<close>


















section \<open>Projections of an analysis outcome\<close>

definition hitWeightsOf :: "error + analysis \<Rightarrow> error + real list" where
  "hitWeightsOf r = (case r of Inl e \<Rightarrow> Inl e | Inr a \<Rightarrow> Inr (map adjustedWeight (hits a)))"



section \<open>Aggregation summaries and projections\<close>






section \<open>Driver invariant and projections\<close>

text \<open>
  The invariant kept by the driver loop for every entry: the confidence is the maximum of
  0 and the confidences of the contributing patterns pushed so far, each of which is the
  confidence of a pattern score.
\<close>

definition drvInv :: "(string \<times> patternData) list \<Rightarrow> driverData \<Rightarrow> bool" where
  "drvInv ps dd \<longleftrightarrow>
     d_confidence dd = Max (insert 0 (cp_confidence ` set (contributingPatterns dd)))
     \<and> list_all (\<lambda>p. list_ex (\<lambda>(c, pd). c = cp_pattern p \<and> cp_confidence p = confidence pd) ps)
          (contributingPatterns dd)"

definition driverContributions :: "(string \<times> driverData) list \<Rightarrow> (string \<times> real list) list" where
  "driverContributions ds = map (\<lambda>(d, dd). (d, map contribution (contributingPatterns dd))) ds"

definition analysisContributions :: "error + analysis \<Rightarrow> error + (string \<times> real list) list" where
  "analysisContributions r = (case r of Inl e \<Rightarrow> Inl e | Inr a \<Rightarrow> Inr (driverContributions (a_drivers a)))"

definition patternScoresOf :: "error + aggregation \<Rightarrow> (string \<times> patternData) list" where
  "patternScoresOf r = (case r of Inl e \<Rightarrow> [] | Inr agg \<Rightarrow> patternScores agg)"

definition driverConfidences :: "(string \<times> driverData) list \<Rightarrow> (string \<times> real) list" where
  "driverConfidences ds = map (\<lambda>(d, dd). (d, d_confidence dd)) ds"

definition drvOk :: "(string \<times> patternData) list \<Rightarrow> (string \<times> driverData) list \<Rightarrow> bool" where
  "drvOk ps ds \<longleftrightarrow> list_all (\<lambda>(d, dd). drvInv ps dd \<and> contributingPatterns dd \<noteq> []) ds"

section \<open>Sample data\<close>





definition sampleDrivers :: "(string \<times> driverData) list" where
  "sampleDrivers =
     inferDriversWithConfidence KNOWLEDGE_BASE
       (patternScoresOf (aggregatePatternsWithClusters KNOWLEDGE_BASE
          (parseTextWithEnhancements (CognitiveEngine KNOWLEDGE_BASE noOptions)
             ''I must win or I am a failure'')))"

section \<open>Invariant of the negation scan\<close>


section \<open>Properties\<close>

subsection \<open>Modifier clamping\<close>

lemma clampMultiplier_bounds: "0.1 \<le> clampMultiplier m \<and> clampMultiplier m \<le> 3"
  by (simp add: clampMultiplier_def)

lemma analyzeModifiersAdvanced_clamped:
  "\<exists>m. multiplier (analyzeModifiersAdvanced k tokenIndex tokens) = clampMultiplier m"
  by (auto simp add: analyzeModifiersAdvanced_def Let_def split: prod.split)

lemma analyzeModifiers_clamped:
  "\<exists>m. bm_multiplier (analyzeModifiers k ctx) = clampMultiplier m"
  by (auto simp add: analyzeModifiers_def Let_def split: prod.split)

text \<open>
  C9. Whatever amplifiers and diminishers precede a token, and with the conflict dampening
  applied, the multiplier returned by the modifier resolver of either engine version lies
  in the closed interval from 0.1 to 3.0.
\<close>

theorem modifier_multiplier_clamped:
  "0.1 \<le> multiplier (analyzeModifiersAdvanced k tokenIndex tokens)
   \<and> multiplier (analyzeModifiersAdvanced k tokenIndex tokens) \<le> 3.0
   \<and> 0.1 \<le> bm_multiplier (analyzeModifiers k ctx)
   \<and> bm_multiplier (analyzeModifiers k ctx) \<le> 3.0"
proof -
  obtain m where a: "multiplier (analyzeModifiersAdvanced k tokenIndex tokens) = clampMultiplier m"
    using analyzeModifiersAdvanced_clamped by blast
  obtain m' where b: "bm_multiplier (analyzeModifiers k ctx) = clampMultiplier m'"
    using analyzeModifiers_clamped by blast
  show ?thesis
    unfolding a b using clampMultiplier_bounds [of m] clampMultiplier_bounds [of m'] by simp
qed

subsection \<open>Hit threshold\<close>

lemma enhancedHitAt_weight: "enhancedHitAt eng tokens i = Some h \<Longrightarrow> 0.3 < adjustedWeight h"
  by (auto simp: enhancedHitAt_def Let_def split: if_splits option.splits)

lemma basicHitAt_weight: "basicHitAt eng tokens i = Some h \<Longrightarrow> 0.3 < adjustedWeight h"
  by (auto simp: basicHitAt_def Let_def split: if_splits option.splits)

lemma map_filter_mem: "h \<in> set (List.map_filter f xs) \<Longrightarrow> \<exists>x \<in> set xs. f x = Some h"
  by (auto simp: List.map_filter_def)

lemma analyze_hits: "analyze eng text = Inr a \<Longrightarrow> hits a = parseTextWithEnhancements eng text"
  by (auto simp: analyze_def Let_def split: sum.splits)

text \<open>
  C1 (amended). Every hit returned by either parser, and so every hit of an analysis
  result, has an adjusted weight strictly above the fixed constant 0.3. The configured
  minimum confidence is not consulted when hits are filtered: the bound by the configured
  threshold follows only when that threshold is at most 0.3, as the default is.
\<close>

theorem hits_exceed_fixed_threshold:
  assumes "h \<in> set (parseTextWithEnhancements eng text) \<or> h \<in> set (parseText eng text)
           \<or> (\<exists>a. analyze eng text = Inr a \<and> h \<in> set (hits a))"
  shows "0.3 < adjustedWeight h
         \<and> (minConfidenceThreshold eng \<le> 0.3 \<longrightarrow> minConfidenceThreshold eng \<le> adjustedWeight h)"
proof -
  from assms have "h \<in> set (parseTextWithEnhancements eng text) \<or> h \<in> set (parseText eng text)"
    using analyze_hits by fastforce
  then have "0.3 < adjustedWeight h"
  proof
    assume "h \<in> set (parseTextWithEnhancements eng text)"
    then obtain i where "enhancedHitAt eng (tokenize text) i = Some h"
      unfolding parseTextWithEnhancements_def Let_def using map_filter_mem by fastforce
    then show ?thesis by (rule enhancedHitAt_weight)
  next
    assume "h \<in> set (parseText eng text)"
    then obtain i where "basicHitAt eng (tokenizeBasic text) i = Some h"
      unfolding parseText_def Let_def using map_filter_mem by fastforce
    then show ?thesis by (rule basicHitAt_weight)
  qed
  then show ?thesis by simp
qed

theorem hits_exceed_fixed_threshold_witness:
  "hitWeightsOf (analyze (CognitiveEngine KNOWLEDGE_BASE noOptions) ''It is not terrible.'') = Inr [8/15]
   \<and> minConfidenceThreshold (CognitiveEngine KNOWLEDGE_BASE noOptions) = 3/10
   \<and> (3/10 :: real) < 8/15"
proof -
  let ?eng = "CognitiveEngine KNOWLEDGE_BASE noOptions"
  let ?text = "''It is not terrible.''"
  have w: "hitWeightsOf (analyze ?eng ?text) = Inr [8/15]" by code_simp
  then obtain a where a: "analyze ?eng ?text = Inr a" "map adjustedWeight (hits a) = [8/15]"
    by (auto simp: hitWeightsOf_def split: sum.splits)
  then obtain h where h: "hits a = [h]" "adjustedWeight h = 8/15" by auto
  have m: "minConfidenceThreshold ?eng = 3/10"
    by (simp add: CognitiveEngine_def noOptions_def orElse_def)
  have "\<exists>a. analyze ?eng ?text = Inr a \<and> h \<in> set (hits a)" using a h by auto
  then have "3/10 < adjustedWeight h"
    using hits_exceed_fixed_threshold [of h ?eng ?text] by simp
  with w m h show ?thesis by simp
qed

text \<open>
  With the minimum confidence configured as 0.5, the analysis of the text below returns
  the hit for "never" with adjusted weight 5/12, below the configured threshold.
\<close>

theorem configured_threshold_ignored:
  "hitWeightsOf (analyze (CognitiveEngine KNOWLEDGE_BASE (noOptions\<lparr>opt_minConfidence := Some 0.5\<rparr>))
                   ''I am not never going to fail.'') = Inr [5/12]
   \<and> minConfidenceThreshold (CognitiveEngine KNOWLEDGE_BASE (noOptions\<lparr>opt_minConfidence := Some 0.5\<rparr>)) = 1/2
   \<and> (5/12 :: real) < 1/2"
proof -
  have "hitWeightsOf (analyze (CognitiveEngine KNOWLEDGE_BASE (noOptions\<lparr>opt_minConfidence := Some 0.5\<rparr>))
                   ''I am not never going to fail.'') = Inr [5/12]"
    by code_simp
  moreover have "minConfidenceThreshold (CognitiveEngine KNOWLEDGE_BASE (noOptions\<lparr>opt_minConfidence := Some 0.5\<rparr>)) = 1/2"
    by (simp add: CognitiveEngine_def noOptions_def orElse_def)
  ultimately show ?thesis by simp
qed

subsection \<open>Negation and the double-negative rule\<close>














subsection \<open>Coherence\<close>













subsection \<open>Cache bound\<close>

lemma setToCache_fresh:
  assumes "length c \<le> 100" "key \<notin> fst ` set c"
  shows "setToCache key a c = c @ [(key, a)]"
  using assms by (simp add: setToCache_def mapSet_def)

lemma cacheAfter_snoc: "cacheAfter (ins @ [(key, a)]) = setToCache key a (cacheAfter ins)"
  by (simp add: cacheAfter_def)

lemma cacheAfter_distinct:
  "distinct (map fst ins) \<Longrightarrow> length ins \<le> 101 \<Longrightarrow> cacheAfter ins = ins"
proof (induction ins rule: rev_induct)
  case Nil
  then show ?case by (simp add: cacheAfter_def)
next
  case (snoc x xs)
  obtain key a where x: "x = (key, a)" by (cases x)
  from snoc.prems have d: "distinct (map fst xs)" "key \<notin> fst ` set xs" "length xs \<le> 100"
    by (auto simp: x)
  then have "cacheAfter xs = xs" using snoc.IH by simp
  then show ?case
    using setToCache_fresh [OF d(3) d(2), of a] by (simp add: x cacheAfter_snoc)
qed

lemma length_mapSet: "length (mapSet key v c) \<le> Suc (length c)"
  by (simp add: mapSet_def)

lemma length_setToCache: "length c \<le> 101 \<Longrightarrow> length (setToCache key a c) \<le> 101"
proof -
  assume h: "length c \<le> 101"
  let ?c' = "if length c > 100 then tl c else c"
  have "length ?c' \<le> 100" using h by auto
  then show ?thesis
    using length_mapSet [of key a ?c'] unfolding setToCache_def by linarith
qed

lemma length_cacheAfter: "length (cacheAfter ins) \<le> 101"
proof (induction ins rule: rev_induct)
  case Nil
  then show ?case by (simp add: cacheAfter_def)
next
  case (snoc x xs)
  then show ?case by (cases x) (simp add: cacheAfter_snoc length_setToCache)
qed

text \<open>
  C8. The cache is meant to hold at most 100 entries, evicting the oldest key first. The
  size test \<^verbatim>\<open>this.cache.size > 100\<close> runs before the insertion, so the eviction starts
  one entry late: after 101 insertions under distinct keys the cache holds 101 entries.
\<close>

theorem cache_holds_101_entries:
  "length (cacheAfter (map (\<lambda>n. (n, ())) [0..<101])) = 101"
proof -
  have "distinct (map fst (map (\<lambda>n. (n, ())) [0..<101]))"
    by (simp add: comp_def)
  then have "cacheAfter (map (\<lambda>n. (n, ())) [0..<101]) = map (\<lambda>n. (n, ())) [0..<101]"
    by (rule cacheAfter_distinct) simp
  then show ?thesis by simp
qed

subsection \<open>Window of the lexical-contradiction scan\<close>









subsection \<open>Bounds of the confidence scorer\<close>














subsection \<open>Pattern aggregation\<close>


lemma keys_upsert: "fst ` set (upsert key init f kvs) = insert key (fst ` set kvs)"
  by (force simp: upsert_def split: if_splits)






















text \<open>
  The enhanced aggregation raises as soon as the hits form a cluster (two hits at most five
  tokens apart), and the analysis with it; it completes exactly when there is no cluster.
\<close>

lemma aggregation_raises_on_cluster:
  "detectPatternClusters hs \<noteq> [] \<Longrightarrow> aggregatePatternsWithClusters k hs = Inl TypeError"
  by (simp add: aggregatePatternsWithClusters_def Let_def)

lemma analyze_raises_on_cluster:
  "hitWeightsOf (analyze (CognitiveEngine KNOWLEDGE_BASE noOptions)
      ''I should always be perfect, but sometimes I feel like a failure.'') = Inl TypeError"
  by code_simp












subsection \<open>Driver inference\<close>

lemma upsert_all:
  assumes old: "\<And>k' v. (k', v) \<in> set kvs \<Longrightarrow> P v"
    and step: "\<And>v. P v \<Longrightarrow> P (f v)"
    and init: "P (f init)"
    and mem: "(k', v) \<in> set (upsert key init f kvs)"
  shows "P v"
proof (cases "key \<in> fst ` set kvs")
  case True
  with mem obtain a b where ab: "(a, b) \<in> set kvs" "(k', v) = (if a = key then (a, f b) else (a, b))"
    by (auto simp: upsert_def)
  show ?thesis
  proof (cases "a = key")
    case True
    then have "v = f b" using ab(2) by simp
    then show ?thesis using step [OF old [OF ab(1)]] by simp
  next
    case False
    then have "v = b" using ab(2) by simp
    then show ?thesis using old [OF ab(1)] by simp
  qed
next
  case False
  with mem have "(k', v) \<in> set kvs \<or> v = f init" by (auto simp: upsert_def)
  then show ?thesis using old init by blast
qed

lemma drvInv_empty: "drvInv ps emptyDriverData"
  by (simp add: drvInv_def emptyDriverData_def)

lemma drvInv_addPattern:
  assumes "drvInv ps dd" "(c, pd) \<in> set ps"
  shows "drvInv ps (addPattern c p pd dd) \<and> contributingPatterns (addPattern c p pd dd) \<noteq> []"
proof -
  let ?S = "cp_confidence ` set (contributingPatterns dd)"
  have f: "finite (insert 0 ?S)" "insert 0 ?S \<noteq> {}" by simp_all
  have "Max (insert (confidence pd) (insert 0 ?S)) = max (confidence pd) (Max (insert 0 ?S))"
    using Max_insert [OF f] by simp
  then have m: "max (Max (insert 0 ?S)) (confidence pd) = Max (insert 0 (insert (confidence pd) ?S))"
    by (simp add: insert_commute max.commute)
  have l: "list_ex (\<lambda>(c', pd'). c' = c \<and> confidence pd = confidence pd') ps"
    using assms(2) by (auto simp: list_ex_iff)
  show ?thesis
    using assms(1) m l by (simp add: drvInv_def addPattern_def Let_def)
qed

lemma drvOk_upsert:
  assumes "drvOk ps ds" "(c, pd) \<in> set ps"
  shows "drvOk ps (upsert d emptyDriverData (addPattern c p pd) ds)"
proof -
  let ?P = "\<lambda>v. drvInv ps v \<and> contributingPatterns v \<noteq> []"
  have old: "\<And>k' v. (k', v) \<in> set ds \<Longrightarrow> ?P v"
    using assms(1) by (auto simp: drvOk_def list_all_iff)
  have step: "\<And>v. ?P v \<Longrightarrow> ?P (addPattern c p pd v)"
    using drvInv_addPattern [OF _ assms(2)] by blast
  have init: "?P (addPattern c p pd emptyDriverData)"
    using drvInv_addPattern [OF drvInv_empty assms(2)] by blast
  have "?P v" if "(k', v) \<in> set (upsert d emptyDriverData (addPattern c p pd) ds)" for k' v
    using upsert_all [where P = ?P and kvs = ds and f = "addPattern c p pd"
        and init = emptyDriverData and key = d and k' = k' and v = v] old step init that
    by blast
  then show ?thesis by (auto simp: drvOk_def list_all_iff)
qed

lemma drvOk_step:
  assumes "drvOk ps ds" "e \<in> set ps"
  shows "drvOk ps (driverStep k e ds)"
proof -
  obtain c pd where e: "e = (c, pd)" by (cases e)
  show ?thesis
    using assms drvOk_upsert [of ps ds c pd]
    by (auto simp: driverStep_def e split: option.splits)
qed

lemma drvOk_fold:
  "drvOk ps ds \<Longrightarrow> set xs \<subseteq> set ps \<Longrightarrow> drvOk ps (fold (driverStep k) xs ds)"
proof (induction xs arbitrary: ds)
  case Nil
  then show ?case by simp
next
  case (Cons x xs)
  have "drvOk ps (driverStep k x ds)" using Cons.prems by (intro drvOk_step) auto
  then show ?case using Cons.IH [of "driverStep k x ds"] Cons.prems(2) by simp
qed

lemma drvOk_all: "drvOk ps (fold (driverStep k) ps [])"
  by (rule drvOk_fold) (simp_all add: drvOk_def)

lemma normalizeDriver_fields:
  "contributingPatterns (normalizeDriver k d dd) = contributingPatterns dd"
  "d_confidence (normalizeDriver k d dd) = d_confidence dd"
  by (simp_all add: normalizeDriver_def Let_def split: option.splits)

lemma drvInv_normalize: "drvInv ps (normalizeDriver k d dd) = drvInv ps dd"
  by (simp add: drvInv_def normalizeDriver_fields)

lemma drvInv_sort: "drvInv ps (sortContributing dd) = drvInv ps dd"
  by (simp add: drvInv_def sortContributing_def list_all_iff)

lemma sortContributing_sorted:
  "sorted_wrt (\<lambda>a b. contribution b \<le> contribution a) (contributingPatterns (sortContributing dd))"
proof -
  have "sorted (map (\<lambda>p. - contribution p) (sort_key (\<lambda>p. - contribution p) (contributingPatterns dd)))"
    by (rule sorted_sort_key)
  then show ?thesis by (simp add: sortContributing_def sorted_map)
qed

lemma sortContributing_nonempty:
  "contributingPatterns (sortContributing dd) \<noteq> [] \<longleftrightarrow> contributingPatterns dd \<noteq> []"
proof -
  have "length (contributingPatterns (sortContributing dd)) = length (contributingPatterns dd)"
    by (simp add: sortContributing_def)
  then show ?thesis by (metis length_0_conv)
qed

lemma basic_entry:
  assumes "(d, dd) \<in> set (inferDrivers k ps)"
  shows "drvInv ps dd \<and> contributingPatterns dd \<noteq> []"
proof -
  from assms obtain dd0 where m: "(d, dd0) \<in> set (fold (driverStep k) ps [])" "dd = normalizeDriver k d dd0"
    by (auto simp: inferDrivers_def)
  then have "drvInv ps dd0 \<and> contributingPatterns dd0 \<noteq> []"
    using drvOk_all [of ps k] by (auto simp: drvOk_def list_all_iff)
  then show ?thesis by (simp add: m(2) drvInv_normalize normalizeDriver_fields)
qed

lemma enhanced_entry:
  assumes "(d, dd) \<in> set (inferDriversWithConfidence k ps)"
  shows "drvInv ps dd \<and> contributingPatterns dd \<noteq> []
         \<and> sorted_wrt (\<lambda>a b. contribution b \<le> contribution a) (contributingPatterns dd)"
proof -
  from assms obtain dd0 where m: "(d, dd0) \<in> set (fold (driverStep k) ps [])"
      "dd = sortContributing (normalizeDriver k d dd0)"
    by (auto simp: inferDriversWithConfidence_def)
  then have "drvInv ps dd0 \<and> contributingPatterns dd0 \<noteq> []"
    using drvOk_all [of ps k] by (auto simp: drvOk_def list_all_iff)
  then show ?thesis
    by (simp add: m(2) drvInv_sort drvInv_normalize sortContributing_nonempty
        normalizeDriver_fields sortContributing_sorted)
qed

lemma Max_insert_zero:
  assumes "finite S" "\<exists>s \<in> S. (0::real) \<le> s"
  shows "Max (insert 0 S) = Max S"
proof -
  from assms obtain s where s: "s \<in> S" "0 \<le> s" by blast
  then have ne: "S \<noteq> {}" by auto
  have "s \<le> Max S" using assms(1) s(1) by simp
  then have "0 \<le> Max S" using s(2) by linarith
  then show ?thesis using Max_insert [OF assms(1) ne, of 0] by simp
qed

text \<open>
  C6 (amended). Every driver entry returned by either engine version has at least one
  contributing pattern, each carrying the confidence of a pattern score, and the driver's
  confidence is the maximum of 0 and these confidences: the maximum itself, not the
  average, as soon as one of them is not negative. The enhanced engine returns the
  contributing patterns sorted by contribution in descending order; the version 3.0
  engine leaves them in the order in which the patterns were met.
\<close>

theorem driver_confidence_and_order:
  assumes "(d, dd) \<in> set (inferDriversWithConfidence k ps) \<or> (d, dd) \<in> set (inferDrivers k ps)"
  shows "contributingPatterns dd \<noteq> []
     \<and> d_confidence dd = Max (insert 0 (cp_confidence ` set (contributingPatterns dd)))
     \<and> ((\<exists>p \<in> set (contributingPatterns dd). 0 \<le> cp_confidence p) \<longrightarrow>
           d_confidence dd = Max (cp_confidence ` set (contributingPatterns dd)))
     \<and> (\<forall>p \<in> set (contributingPatterns dd).
           \<exists>pd. (cp_pattern p, pd) \<in> set ps \<and> cp_confidence p = confidence pd)
     \<and> ((d, dd) \<in> set (inferDriversWithConfidence k ps) \<longrightarrow>
           sorted_wrt (\<lambda>a b. contribution b \<le> contribution a) (contributingPatterns dd))"
proof -
  have i: "drvInv ps dd \<and> contributingPatterns dd \<noteq> []"
    using assms basic_entry enhanced_entry by blast
  then have c: "d_confidence dd = Max (insert 0 (cp_confidence ` set (contributingPatterns dd)))"
    by (simp add: drvInv_def)
  have m: "(\<exists>p \<in> set (contributingPatterns dd). 0 \<le> cp_confidence p) \<longrightarrow>
           d_confidence dd = Max (cp_confidence ` set (contributingPatterns dd))"
    using c Max_insert_zero [of "cp_confidence ` set (contributingPatterns dd)"] by auto
  have l: "\<forall>p \<in> set (contributingPatterns dd).
           \<exists>pd. (cp_pattern p, pd) \<in> set ps \<and> cp_confidence p = confidence pd"
    using i by (fastforce simp: drvInv_def list_all_iff list_ex_iff)
  have s: "(d, dd) \<in> set (inferDriversWithConfidence k ps) \<longrightarrow>
           sorted_wrt (\<lambda>a b. contribution b \<le> contribution a) (contributingPatterns dd)"
    using enhanced_entry by blast
  from i c m l s show ?thesis by blast
qed

text \<open>
  Two patterns of the driver "validation": the version 3.0 engine lists the contributions
  4.55, 5.32 in ascending order, the enhanced engine 5.32, 4.55.
\<close>

theorem basic_contributors_unsorted:
  "driverContributions (inferDrivers KNOWLEDGE_BASE (aggregatePatterns KNOWLEDGE_BASE
       (parseText (BasicEngine KNOWLEDGE_BASE) ''I must win or I am a failure'')))
     = [(''validation'', [91/20, 133/25])]
   \<and> (91/20 :: real) < 133/25
   \<and> analysisContributions (analyze (CognitiveEngine KNOWLEDGE_BASE noOptions) ''I must win or I am a failure'')
     = Inr [(''validation'', [133/25, 91/20])]"
  by code_simp

theorem driver_confidence_and_order_witness:
  "driverContributions sampleDrivers = [(''validation'', [133/25, 91/20])]
   \<and> driverConfidences sampleDrivers = [(''validation'', 77/125)]
   \<and> contributingPatterns (snd (hd sampleDrivers)) \<noteq> []
   \<and> d_confidence (snd (hd sampleDrivers))
       = Max (cp_confidence ` set (contributingPatterns (snd (hd sampleDrivers))))
   \<and> sorted_wrt (\<lambda>a b. contribution b \<le> contribution a) (contributingPatterns (snd (hd sampleDrivers)))"
proof -
  let ?ps = "patternScoresOf (aggregatePatternsWithClusters KNOWLEDGE_BASE
          (parseTextWithEnhancements (CognitiveEngine KNOWLEDGE_BASE noOptions)
             ''I must win or I am a failure''))"
  have c: "driverContributions sampleDrivers = [(''validation'', [133/25, 91/20])]" by code_simp
  have f: "driverConfidences sampleDrivers = [(''validation'', 77/125)]" by code_simp
  have "sampleDrivers \<noteq> []" using c by (auto simp: driverContributions_def)
  then have "hd sampleDrivers \<in> set sampleDrivers" by simp
  then have "(fst (hd sampleDrivers), snd (hd sampleDrivers)) \<in> set sampleDrivers" by simp
  then have m: "(fst (hd sampleDrivers), snd (hd sampleDrivers)) \<in> set (inferDriversWithConfidence KNOWLEDGE_BASE ?ps)"
    by (simp only: sampleDrivers_def)
  have "list_ex (\<lambda>p. 0 \<le> cp_confidence p) (contributingPatterns (snd (hd sampleDrivers)))"
    by code_simp
  then have e: "\<exists>p \<in> set (contributingPatterns (snd (hd sampleDrivers))). 0 \<le> cp_confidence p"
    by (simp only: list_ex_iff)
  note T = driver_confidence_and_order [OF disjI1 [OF m]]
  from T e m c f show ?thesis by blast
qed

end
